theory Spec2Isabelle
  imports Main "HOL-Library.Word"
begin

unbundle bit_operations_syntax

section \<open>Bytes, hashes and addresses\<close>

text \<open>
  The tracker handles three kinds of byte arrays of the Ethereum client library:
  \<^verbatim>\<open>common.Hash\<close> (\<^verbatim>\<open>[32]byte\<close>), \<^verbatim>\<open>common.Address\<close> (\<^verbatim>\<open>[20]byte\<close>) and the
  \<^verbatim>\<open>[]byte\<close> payload of a log. All three are byte lists here; the fixed lengths are
  the constants \<open>HashLength\<close> and \<open>AddressLength\<close>.
\<close>

type_synonym byte = "8 word"
type_synonym Hash = "byte list"
type_synonym Address = "byte list"

definition HashLength :: nat where
  "HashLength = 32"

definition AddressLength :: nat where
  "AddressLength = 20"

subsection \<open>Hexadecimal strings (encoding/hex, hexutil, common)\<close>

definition hextable :: string where
  "hextable = ''0123456789abcdef''"

text \<open>\<^verbatim>\<open>hex.EncodeToString\<close>: two digits per byte, high nibble first.\<close>

definition EncodeToString :: "byte list \<Rightarrow> string" where
  "EncodeToString src =
     concat (map (\<lambda>v. [hextable ! unat (drop_bit 4 v), hextable ! unat (v AND 0x0f)]) src)"

text \<open>The reverse table of \<^verbatim>\<open>encoding/hex\<close>: both letter cases are digits.\<close>

definition fromHexChar :: "char \<Rightarrow> byte option" where
  "fromHexChar c = map_of
     [(CHR ''0'', 0), (CHR ''1'', 1), (CHR ''2'', 2), (CHR ''3'', 3), (CHR ''4'', 4),
      (CHR ''5'', 5), (CHR ''6'', 6), (CHR ''7'', 7), (CHR ''8'', 8), (CHR ''9'', 9),
      (CHR ''a'', 10), (CHR ''b'', 11), (CHR ''c'', 12), (CHR ''d'', 13), (CHR ''e'', 14),
      (CHR ''f'', 15),
      (CHR ''A'', 10), (CHR ''B'', 11), (CHR ''C'', 12), (CHR ''D'', 13), (CHR ''E'', 14),
      (CHR ''F'', 15)] c"

text \<open>
  \<^verbatim>\<open>hex.DecodeString\<close> as \<^verbatim>\<open>common.Hex2Bytes\<close> uses it: the error is thrown away and the
  bytes decoded before the first bad digit (or before a dangling last digit) are kept.
\<close>

fun DecodeString :: "string \<Rightarrow> byte list" where
  "DecodeString (p # q # rest) =
     (case fromHexChar p of
        None \<Rightarrow> []
      | Some a \<Rightarrow>
          (case fromHexChar q of
             None \<Rightarrow> []
           | Some b \<Rightarrow> (push_bit 4 a OR b) # DecodeString rest))"
| "DecodeString _ = []"

definition Hex2Bytes :: "string \<Rightarrow> byte list" where
  "Hex2Bytes str = DecodeString str"

definition has0xPrefix :: "string \<Rightarrow> bool" where
  "has0xPrefix str \<longleftrightarrow>
     length str \<ge> 2 \<and> str ! 0 = CHR ''0'' \<and> (str ! 1 = CHR ''x'' \<or> str ! 1 = CHR ''X'')"

definition FromHex :: "string \<Rightarrow> byte list" where
  "FromHex s =
     (let s1 = (if has0xPrefix s then drop 2 s else s);
          s2 = (if length s1 mod 2 = 1 then CHR ''0'' # s1 else s1)
      in Hex2Bytes s2)"

text \<open>
  \<^verbatim>\<open>Address.SetBytes\<close>: a longer input is cropped from the left, a shorter one is
  right-aligned in the zeroed array.
\<close>

definition BytesToAddress :: "byte list \<Rightarrow> Address" where
  "BytesToAddress b =
     (let b1 = (if length b > AddressLength then drop (length b - AddressLength) b else b)
      in replicate (AddressLength - length b1) 0 @ b1)"

definition HexToAddress :: "string \<Rightarrow> Address" where
  "HexToAddress s = BytesToAddress (FromHex s)"

text \<open>\<^verbatim>\<open>Hash.Hex\<close> is \<^verbatim>\<open>hexutil.Encode\<close>: the prefix \<^verbatim>\<open>0x\<close> and the lower-case digits.\<close>

definition HashHex :: "Hash \<Rightarrow> string" where
  "HashHex h = ''0x'' @ EncodeToString h"

text \<open>\<^verbatim>\<open>Hash.Big\<close> is \<^verbatim>\<open>big.Int.SetBytes\<close>: the bytes read as a big-endian unsigned number.\<close>

definition Big :: "Hash \<Rightarrow> int" where
  "Big h = foldl (\<lambda>acc b. acc * 256 + uint b) 0 h"

text \<open>
  The Keccak-256 digest of \<^verbatim>\<open>Transfer(address,address,uint256)\<close>, which
  \<^verbatim>\<open>TrackTransferEvents\<close> computes once. The hash function itself is not modelled; the
  digest is written out.
\<close>

definition transferEventHash :: Hash where
  "transferEventHash =
     [0xdd, 0xf2, 0x52, 0xad, 0x1b, 0xe2, 0xc8, 0x9b, 0x69, 0xc2, 0xb0, 0x68, 0xfc, 0x37, 0x8d, 0xaa,
      0x95, 0x2b, 0xa7, 0xf1, 0x63, 0xc4, 0xa1, 0x16, 0x28, 0xf5, 0x5a, 0x4d, 0xf5, 0x23, 0xb3, 0xef]"

section \<open>Errors and panics\<close>

text \<open>
  Go error values, by the kind of failure they report, and run-time panics. A panic is not
  an error value: nothing in the tracker recovers from it, so it unwinds every caller.
\<close>

datatype error = ConfigError | FetchError | DecodeError | RangeError | StoreError | Cancelled

datatype panic = IndexOutOfRange nat nat

text \<open>Indexing a slice: \<open>IndexOutOfRange i n\<close> is the panic for index \<open>i\<close> with length \<open>n\<close>.\<close>

definition index :: "'a list \<Rightarrow> nat \<Rightarrow> panic + 'a" where
  "index xs i = (if i < length xs then Inr (xs ! i) else Inl (IndexOutOfRange i (length xs)))"

section \<open>The log decoder\<close>

record Log =
  Address :: Address
  Topics :: "Hash list"
  Data :: "byte list"
  BlockNumber :: nat
  TxHash :: Hash
  Index :: nat

text \<open>
  The event description that \<^verbatim>\<open>decodeTransferLog\<close> parses from its inline JSON text on
  every call: one event, \<^verbatim>\<open>Transfer\<close>, with three inputs, all indexed. The text is a
  constant that parses, so the branch for a parse error is never taken and the parsed
  value stands for the call of \<^verbatim>\<open>abi.JSON\<close>.
\<close>

record Argument =
  Name :: string
  Type :: string
  Indexed :: bool

definition transferEventABI :: "(string \<times> Argument list) list" where
  "transferEventABI =
     [(''Transfer'',
       [\<lparr>Name = ''from'', Type = ''address'', Indexed = True\<rparr>,
        \<lparr>Name = ''to'', Type = ''address'', Indexed = True\<rparr>,
        \<lparr>Name = ''tokenId'', Type = ''uint256'', Indexed = True\<rparr>])]"

definition NonIndexed :: "Argument list \<Rightarrow> Argument list" where
  "NonIndexed arguments = filter (\<lambda>a. \<not> Indexed a) arguments"

text \<open>
  \<^verbatim>\<open>ABI.UnpackIntoInterface\<close> of the client library, as far as the decoder depends on it:
  the event is looked up by name, and only its non-indexed inputs are read from the
  payload, one 32-byte word each for the static types used here. With no payload and
  inputs expected, or with a payload too short for them, it returns an error. The values
  it would store are overwritten by the decoder afterwards, so only success or failure
  is kept.
\<close>

definition UnpackIntoInterface :: "(string \<times> Argument list) list \<Rightarrow> string \<Rightarrow> byte list \<Rightarrow> error option" where
  "UnpackIntoInterface events name data =
     (case map_of events name of
        None \<Rightarrow> Some DecodeError
      | Some arguments \<Rightarrow>
          if data = [] then (if NonIndexed arguments \<noteq> [] then Some DecodeError else None)
          else if length data < 32 * length (NonIndexed arguments) then Some DecodeError
          else None)"

text \<open>
  \<^verbatim>\<open>decodeTransferLog\<close>: the result is a panic, or the returned triple, whose error
  component decides between \<open>Inl\<close> and \<open>Inr\<close>. The three topic reads are in the
  source's order; the first one out of range panics.
\<close>

definition decodeTransferLog :: "Log \<Rightarrow> panic + (error + Address \<times> int)" where
  "decodeTransferLog delog =
     (case UnpackIntoInterface transferEventABI ''Transfer'' (Data delog) of
        Some err \<Rightarrow> Inr (Inl err)
      | None \<Rightarrow>
          (case index (Topics delog) 1 of
             Inl p \<Rightarrow> Inl p
           | Inr t1 \<Rightarrow>
               (case index (Topics delog) 2 of
                  Inl p \<Rightarrow> Inl p
                | Inr t2 \<Rightarrow>
                    (case index (Topics delog) 3 of
                       Inl p \<Rightarrow> Inl p
                     | Inr t3 \<Rightarrow>
                         (let From = HexToAddress (HashHex t1);
                              To = HexToAddress (HashHex t2);
                              TokenId = Big t3
                          in Inr (Inr (To, TokenId)))))))"

section \<open>The ownership store\<close>

text \<open>
  Go's \<^verbatim>\<open>int\<close> is the key type of the store. It is 64 bits wide on the 64-bit targets
  the service is built for; \<open>BigIntToInt\<close> is written for any width so that the
  conversions \<^verbatim>\<open>int64(^int(0))\<close> and \<^verbatim>\<open>int(i64)\<close> are the source's.
\<close>

type_synonym go_int = "64 word"
type_synonym Time = nat

text \<open>\<^verbatim>\<open>big.Int.IsInt64\<close> and \<^verbatim>\<open>big.Int.Int64\<close> (the low 64 bits, two's complement).\<close>

definition IsInt64 :: "int \<Rightarrow> bool" where
  "IsInt64 b \<longleftrightarrow> - (2 ^ 63) \<le> b \<and> b \<le> 2 ^ 63 - 1"

definition Int64 :: "int \<Rightarrow> 64 word" where
  "Int64 b = word_of_int b"

definition BigIntToInt :: "int \<Rightarrow> error + 'w::len word" where
  "BigIntToInt b =
     (if IsInt64 b then
        (let i64 = Int64 b in
         if sint i64 \<ge> sint (scast (NOT (0 :: 'w word)) :: 64 word)
            \<or> sint i64 \<le> sint (word_of_int (- (2 ^ 63)) :: 64 word)
         then Inr (scast i64)
         else Inl RangeError)
      else Inl RangeError)"

text \<open>
  The \<^verbatim>\<open>NFT\<close> struct as \<^verbatim>\<open>processTransferLog\<close> fills it (\<^verbatim>\<open>ID\<close> and \<^verbatim>\<open>TokenUri\<close> stay
  zero and are not written by the upsert). The three strings are \<^verbatim>\<open>Hex()\<close> renderings of
  byte arrays; each rendering is one-to-one, and the bytes are kept. The field
  \<^verbatim>\<open>TxHash\<close> is \<open>NftTxHash\<close> here, apart from the log's field of the same name.
\<close>

record NFT =
  NftID :: go_int
  OwnerAddress :: Address
  ContractAddress :: Address
  NftTxHash :: Hash
  TimeStamp :: Time

text \<open>
  A stored document, with the keys that the update writes (the generated \<^verbatim>\<open>_id\<close> is
  left out). The collection is the list of its documents in insertion order.
\<close>

record Document =
  nftId :: go_int
  ownerAddress :: Address
  contractAddress :: Address
  txHash :: Hash
  timeStamp :: Time

text \<open>
  \<^verbatim>\<open>collection.UpdateOne(filter, update, upsert)\<close> with the filter, \<^verbatim>\<open>$set\<close> and
  \<^verbatim>\<open>$setOnInsert\<close> of \<^verbatim>\<open>CreateUpdateNFT\<close>: the first document whose \<^verbatim>\<open>nftId\<close> matches
  gets the four \<^verbatim>\<open>$set\<close> fields; with no match, a document with the filter's key and the
  four fields is inserted.
\<close>

fun UpdateOne :: "NFT \<Rightarrow> Document list \<Rightarrow> Document list" where
  "UpdateOne nft [] =
     [\<lparr>nftId = NftID nft, ownerAddress = OwnerAddress nft,
       contractAddress = ContractAddress nft, txHash = NftTxHash nft,
       timeStamp = TimeStamp nft\<rparr>]"
| "UpdateOne nft (d # ds) =
     (if nftId d = NftID nft
      then d\<lparr>ownerAddress := OwnerAddress nft, contractAddress := ContractAddress nft,
             txHash := NftTxHash nft, timeStamp := TimeStamp nft\<rparr> # ds
      else d # UpdateOne nft ds)"

text \<open>
  \<^verbatim>\<open>CreateUpdateNFT\<close>: \<open>storeDown\<close> says whether the driver call fails; a failed call
  changes nothing and its error is returned.
\<close>

definition CreateUpdateNFT :: "bool \<Rightarrow> NFT \<Rightarrow> Document list \<Rightarrow> error option \<times> Document list" where
  "CreateUpdateNFT storeDown nft coll =
     (if storeDown then (Some StoreError, coll) else (None, UpdateOne nft coll))"

text \<open>
  The unique index on \<^verbatim>\<open>nftId\<close> that \<^verbatim>\<open>CreateIndexes\<close> creates when the tracker
  is constructed (the process exits if it cannot be created): the collection never
  holds two documents with one \<^verbatim>\<open>nftId\<close>.
\<close>

definition uniqueIndex :: "Document list \<Rightarrow> bool" where
  "uniqueIndex coll \<longleftrightarrow> distinct (map nftId coll)"

section \<open>The tracker\<close>

text \<open>
  \<^verbatim>\<open>processTransferLog\<close>: \<open>now\<close> is the reading of \<^verbatim>\<open>time.Now()\<close>, \<open>storeDown\<close> the
  store's state at the call. The result is a panic, or the returned error (\<open>None\<close> is
  \<^verbatim>\<open>nil\<close>) with the collection after the call.
\<close>

definition processTransferLog :: "Time \<Rightarrow> bool \<Rightarrow> Log \<Rightarrow> Document list \<Rightarrow> panic + (error option \<times> Document list)" where
  "processTransferLog now storeDown delog coll =
     (case decodeTransferLog delog of
        Inl p \<Rightarrow> Inl p
      | Inr (Inl err) \<Rightarrow> Inr (Some DecodeError, coll)
      | Inr (Inr (to, tokenId)) \<Rightarrow>
          (case (BigIntToInt tokenId :: error + go_int) of
             Inl err \<Rightarrow> Inr (Some RangeError, coll)
           | Inr tokenIDInt \<Rightarrow>
               (let nft = \<lparr>NftID = tokenIDInt, OwnerAddress = to,
                           ContractAddress = Address delog, NftTxHash = TxHash delog,
                           TimeStamp = now\<rparr>;
                    (err, coll1) = CreateUpdateNFT storeDown nft coll
                in Inr (None, coll1))))"

text \<open>
  A log as the loop meets it: the entry, with the clock and the store's state at the
  moment it is processed.
\<close>

record Arrival =
  entry :: Log
  clock :: Time
  storeDown :: bool

text \<open>
  The loop \<^verbatim>\<open>for _, delog := range logs\<close> of the backfill and of \<^verbatim>\<open>fetchNewLogs\<close>: an
  error is logged and the loop goes on; a panic ends it. The result is the panic if
  any, the error of each log processed, and the collection.
\<close>

fun processLogs :: "Arrival list \<Rightarrow> Document list \<Rightarrow> panic option \<times> error option list \<times> Document list" where
  "processLogs [] coll = (None, [], coll)"
| "processLogs (a # rest) coll =
     (case processTransferLog (clock a) (storeDown a) (entry a) coll of
        Inl p \<Rightarrow> (Some p, [], coll)
      | Inr (err, coll1) \<Rightarrow>
          (case processLogs rest coll1 of
             (p, errs, coll2) \<Rightarrow> (p, err # errs, coll2)))"

record FilterQuery =
  FromBlock :: int
  ToBlock :: int
  Addresses :: "Address list"
  QueryTopics :: "Hash list list"

text \<open>
  What the node answers during one round: the head of \<^verbatim>\<open>HeaderByNumber(ctx, nil)\<close> and
  the logs of \<^verbatim>\<open>FilterLogs\<close>; \<open>None\<close> is a failed call.
\<close>

record Node =
  header :: "int option"
  filterLogs :: "Arrival list option"

text \<open>
  \<^verbatim>\<open>fetchNewLogs\<close>: the result is the query issued (\<open>None\<close> when no \<^verbatim>\<open>FilterLogs\<close>
  call was made) and the outcome of the loop over the returned logs.
\<close>

definition fetchNewLogs :: "Address list \<Rightarrow> Node \<Rightarrow> Hash \<Rightarrow> int \<Rightarrow> Document list
    \<Rightarrow> FilterQuery option \<times> panic option \<times> error option list \<times> Document list" where
  "fetchNewLogs contractAddrs node eventHash fromBlock coll =
     (case header node of
        None \<Rightarrow> (None, None, [], coll)
      | Some latestBlock \<Rightarrow>
          (let query = \<lparr>FromBlock = fromBlock, ToBlock = latestBlock,
                        Addresses = contractAddrs, QueryTopics = [ [eventHash] ]\<rparr>
           in case filterLogs node of
                None \<Rightarrow> (Some query, None, [], coll)
              | Some logs \<Rightarrow>
                  (case processLogs logs coll of
                     (p, errs, coll1) \<Rightarrow> (Some query, p, errs, coll1))))"

text \<open>
  The \<^verbatim>\<open>select\<close> loop of \<^verbatim>\<open>TrackTransferEvents\<close> over the signals it receives: a tick of
  the timer, with the node's answers during that tick, or the cancellation of the
  context. The loop has no exit of its own, so a finite list of signals leaves it
  \<open>Blocked\<close> in the \<^verbatim>\<open>select\<close>. The block passed to \<^verbatim>\<open>fetchNewLogs\<close> is the variable
  \<^verbatim>\<open>latestBlock\<close> of the enclosing function at every tick.
\<close>

datatype Signal = TickerC Node | CtxDone

datatype Outcome = Blocked | Returned error | Panicked panic

fun pollLoop :: "Address list \<Rightarrow> Hash \<Rightarrow> int \<Rightarrow> Signal list \<Rightarrow> Document list
    \<Rightarrow> Outcome \<times> FilterQuery option list \<times> Document list" where
  "pollLoop contractAddrs eventHash latestBlock [] coll = (Blocked, [], coll)"
| "pollLoop contractAddrs eventHash latestBlock (CtxDone # rest) coll = (Returned Cancelled, [], coll)"
| "pollLoop contractAddrs eventHash latestBlock (TickerC node # rest) coll =
     (case fetchNewLogs contractAddrs node eventHash latestBlock coll of
        (q, Some p, errs, coll1) \<Rightarrow> (Panicked p, [q], coll1)
      | (q, None, errs, coll1) \<Rightarrow>
          (case pollLoop contractAddrs eventHash latestBlock rest coll1 of
             (out, qs, coll2) \<Rightarrow> (out, q # qs, coll2)))"

text \<open>
  \<^verbatim>\<open>TrackTransferEvents\<close>: the start block from the environment, the backfill, then the
  loop. The result is how the function ended, the queries issued in order (the
  backfill's first) and the collection.
\<close>

datatype FromBlockEnv = Unset | Malformed | Parsed int

definition TrackTransferEvents :: "Address list \<Rightarrow> FromBlockEnv \<Rightarrow> Node \<Rightarrow> Signal list \<Rightarrow> Document list
    \<Rightarrow> Outcome \<times> FilterQuery option list \<times> Document list" where
  "TrackTransferEvents contractAddrs fromBlockEnv startup signals coll =
     (case fromBlockEnv of
        Unset \<Rightarrow> (Returned ConfigError, [], coll)
      | Malformed \<Rightarrow> (Returned ConfigError, [], coll)
      | Parsed startBlock \<Rightarrow>
          (case header startup of
             None \<Rightarrow> (Returned FetchError, [], coll)
           | Some latestBlock \<Rightarrow>
               (let query = \<lparr>FromBlock = startBlock, ToBlock = latestBlock,
                             Addresses = contractAddrs, QueryTopics = [ [transferEventHash] ]\<rparr>
                in case filterLogs startup of
                     None \<Rightarrow> (Returned FetchError, [Some query], coll)
                   | Some historicalLogs \<Rightarrow>
                       (case processLogs historicalLogs coll of
                          (Some p, errs, coll1) \<Rightarrow> (Panicked p, [Some query], coll1)
                        | (None, errs, coll1) \<Rightarrow>
                            (case pollLoop contractAddrs transferEventHash latestBlock signals coll1 of
                               (out, qs, coll2) \<Rightarrow> (out, Some query # qs, coll2))))))"

section \<open>Example inputs\<close>

text \<open>
  A contract, three owners and transfer logs with four topics, for evaluating the
  definitions: an address topic is the address left-padded to 32 bytes, a token
  identifier topic the number as 32 big-endian bytes (written here for numbers below
  256, which fill the last byte).
\<close>

definition contractA :: Address where
  "contractA = replicate 20 0xc0"

definition ownerX :: Address where
  "ownerX = replicate 20 0x01"

definition ownerY :: Address where
  "ownerY = replicate 20 0x02"

definition ownerZ :: Address where
  "ownerZ = replicate 20 0x03"

definition addressTopic :: "Address \<Rightarrow> Hash" where
  "addressTopic a = replicate 12 0 @ a"

definition uint256Topic :: "nat \<Rightarrow> Hash" where
  "uint256Topic n = replicate 31 0 @ [of_nat n]"

definition transferLog :: "Address \<Rightarrow> Address \<Rightarrow> nat \<Rightarrow> nat \<Rightarrow> Log" where
  "transferLog sender receiver tokenId block =
     \<lparr>Address = contractA,
      Topics = [transferEventHash, addressTopic sender, addressTopic receiver, uint256Topic tokenId],
      Data = [], BlockNumber = block, TxHash = uint256Topic block, Index = 0\<rparr>"


text \<open>
  A \<^verbatim>\<open>Transfer\<close> log of a token contract that indexes the sender and the receiver only:
  the same signature hash, three topics, and the amount in the payload.
\<close>

definition erc20TransferLog :: Log where
  "erc20TransferLog =
     \<lparr>Address = contractA,
      Topics = [transferEventHash, addressTopic ownerX, addressTopic ownerY],
      Data = uint256Topic 5, BlockNumber = 102, TxHash = uint256Topic 102, Index = 0\<rparr>"

text \<open>A log with four topics whose first topic is not the signature hash.\<close>

definition unsignedLog :: Log where
  "unsignedLog = (transferLog ownerX ownerY 7 101)
     \<lparr>Topics := [replicate 32 0, addressTopic ownerX, addressTopic ownerY, uint256Topic 7]\<rparr>"

text \<open>A log processed at time \<open>t\<close> with the store up.\<close>

definition arrival :: "Log \<Rightarrow> Time \<Rightarrow> Arrival" where
  "arrival delog t = \<lparr>entry = delog, clock = t, storeDown = False\<rparr>"

text \<open>A node whose head is \<open>head\<close> and that answers the query with the given logs.\<close>

definition nodeAt :: "int \<Rightarrow> Arrival list \<Rightarrow> Node" where
  "nodeAt head logs = \<lparr>header = Some head, filterLogs = Some logs\<rparr>"

definition transferQuery :: "int \<Rightarrow> int \<Rightarrow> FilterQuery" where
  "transferQuery fromBlock toBlock =
     \<lparr>FromBlock = fromBlock, ToBlock = toBlock, Addresses = [contractA],
      QueryTopics = [ [transferEventHash] ]\<rparr>"

text \<open>The document that an upsert of \<open>nft\<close> inserts or leaves behind.\<close>

definition documentOf :: "NFT \<Rightarrow> Document" where
  "documentOf nft =
     \<lparr>nftId = NftID nft, ownerAddress = OwnerAddress nft,
      contractAddress = ContractAddress nft, txHash = NftTxHash nft,
      timeStamp = TimeStamp nft\<rparr>"

section \<open>Hexadecimal round trip\<close>

lemma nibble_cases: "n < 16 \<Longrightarrow> n \<in> {0,1,2,3,4,5,6,7,8,9,10,11,12,13,14,15::nat}"
  by (simp only: insert_iff empty_iff) arith

lemma fromHexChar_hextable:
  assumes "n < 16" shows "fromHexChar (hextable ! n) = Some (of_nat n)"
proof -
  from assms have "n \<in> {0,1,2,3,4,5,6,7,8,9,10,11,12,13,14,15::nat}" by (rule nibble_cases)
  then show ?thesis
    by (auto simp: fromHexChar_def hextable_def)
qed

lemma high_nibble_less: "unat (drop_bit 4 (v::byte)) < 16"
proof -
  have "unat v < 256" using unsigned_less [of v] by simp
  then have "unat v div 16 < 16" by simp
  moreover have "unat (drop_bit 4 v) = unat v div 16"
    by (simp add: drop_bit_eq_div unat_div)
  ultimately show ?thesis by simp
qed

lemma low_nibble_less: "unat ((v::byte) AND 0x0f) < 16"
proof -
  have "v AND 0x0f \<le> 0x0f" by (rule word_and_le1)
  then have "unat (v AND 0x0f) \<le> 15" by (simp add: word_le_nat_alt)
  then show ?thesis by simp
qed

lemma nibbles_join: "push_bit 4 (drop_bit 4 (v::byte)) OR (v AND 0x0f) = v"
proof -
  have "(15::byte) = mask 4" by (simp add: mask_eq_exp_minus_1)
  then show ?thesis
    by (simp add: bit_eq_iff bit_simps) (auto simp: bit_simps)
qed

lemma EncodeToString_Cons:
  "EncodeToString (v # bs) =
     hextable ! unat (drop_bit 4 v) # hextable ! unat (v AND 0x0f) # EncodeToString bs"
  by (simp add: EncodeToString_def)

lemma DecodeString_EncodeToString: "DecodeString (EncodeToString bs) = bs"
proof (induction bs)
  case Nil
  then show ?case by (simp add: EncodeToString_def)
next
  case (Cons v bs)
  show ?case
    unfolding EncodeToString_Cons
    using Cons.IH by (simp add: fromHexChar_hextable high_nibble_less low_nibble_less nibbles_join)
qed

lemma length_EncodeToString: "length (EncodeToString bs) = 2 * length bs"
  by (induction bs) (simp_all add: EncodeToString_def)

lemma FromHex_HashHex: "FromHex (HashHex h) = h"
  by (simp add: FromHex_def HashHex_def has0xPrefix_def Hex2Bytes_def
      length_EncodeToString DecodeString_EncodeToString)

lemma HexToAddress_HashHex: "HexToAddress (HashHex h) = BytesToAddress h"
  by (simp add: HexToAddress_def FromHex_HashHex)

lemma BytesToAddress_Hash:
  "length h = HashLength \<Longrightarrow> BytesToAddress h = drop 12 h"
  by (simp add: BytesToAddress_def HashLength_def AddressLength_def)

lemma length_BytesToAddress: "length (BytesToAddress b) = AddressLength"
  by (auto simp: BytesToAddress_def Let_def)

lemma BytesToAddress_addressTopic:
  "length a = AddressLength \<Longrightarrow> BytesToAddress (addressTopic a) = a"
  by (simp add: BytesToAddress_def addressTopic_def AddressLength_def)

section \<open>Properties of the decoder\<close>

lemma foldl_Big_nonneg:
  "0 \<le> acc \<Longrightarrow> 0 \<le> foldl (\<lambda>acc b. acc * 256 + uint (b::byte)) acc h"
  by (induction h arbitrary: acc) simp_all

lemma foldl_Big_less:
  "0 \<le> acc \<Longrightarrow> acc < 256 ^ k \<Longrightarrow>
     foldl (\<lambda>acc b. acc * 256 + uint (b::byte)) acc h < 256 ^ (k + length h)"
proof (induction h arbitrary: acc k)
  case Nil
  then show ?case by simp
next
  case (Cons b h)
  have "uint b < 256" using uint_lt2p [of b] by simp
  with Cons.prems have "acc * 256 + uint b < 256 ^ Suc k" by simp
  moreover from Cons.prems have "0 \<le> acc * 256 + uint b" by simp
  ultimately have "foldl (\<lambda>acc b. acc * 256 + uint (b::byte)) (acc * 256 + uint b) h
      < 256 ^ (Suc k + length h)"
    by (rule Cons.IH [rotated])
  then show ?case by simp
qed

lemma Big_range: "0 \<le> Big h \<and> Big h < 256 ^ length h"
  using foldl_Big_nonneg [of 0 h] foldl_Big_less [of 0 0 h] by (simp add: Big_def)

lemma Big_leading_zeros: "Big (replicate n 0 @ h) = Big h"
  by (induction n) (simp_all add: Big_def)

lemma Big_singleton: "Big [b] = uint b"
  by (simp add: Big_def)

lemma uint_byte_of_nat:
  assumes "n < 256" shows "uint (of_nat n :: byte) = int n"
proof -
  have "unat (of_nat n :: byte) = n mod 2 ^ LENGTH(8)" by (rule unat_of_nat)
  with assms have "unat (of_nat n :: byte) = n" by simp
  then show ?thesis by (simp only: uint_nat)
qed

lemma Big_uint256Topic: "n < 256 \<Longrightarrow> Big (uint256Topic n) = int n"
  by (simp only: uint256Topic_def Big_leading_zeros Big_singleton uint_byte_of_nat)

text \<open>The event has no input outside the topics, so no payload makes the unpacking fail.\<close>

lemma UnpackIntoInterface_Transfer:
  "UnpackIntoInterface transferEventABI ''Transfer'' payload = None"
  by (simp add: UnpackIntoInterface_def transferEventABI_def NonIndexed_def)

lemma decodeTransferLog_four:
  assumes "4 \<le> length (Topics delog)"
  shows "decodeTransferLog delog =
           Inr (Inr (BytesToAddress (Topics delog ! 2), Big (Topics delog ! 3)))"
  using assms
  by (simp add: decodeTransferLog_def UnpackIntoInterface_Transfer index_def
      HexToAddress_HashHex)

lemma decodeTransferLog_transferLog:
  "length receiver = AddressLength \<Longrightarrow> tokenId < 256 \<Longrightarrow>
     decodeTransferLog (transferLog sender receiver tokenId block)
       = Inr (Inr (receiver, int tokenId))"
  by (simp add: decodeTransferLog_four transferLog_def Big_uint256Topic
      BytesToAddress_addressTopic)

text \<open>With three topics the read of \<^verbatim>\<open>Topics[3]\<close> is out of range.\<close>

lemma decodeTransferLog_erc20: "decodeTransferLog erc20TransferLog = Inl (IndexOutOfRange 3 3)"
  by (simp add: decodeTransferLog_def erc20TransferLog_def UnpackIntoInterface_Transfer index_def)

lemma zero_hash_not_transferEventHash: "replicate 32 0 \<noteq> transferEventHash"
proof
  assume "replicate 32 0 = transferEventHash"
  then have "hd (replicate 32 (0::byte)) = hd transferEventHash" by simp
  then show False by (simp add: transferEventHash_def)
qed

text \<open>
  C4. A log whose topics are the signature hash, a sender topic, a receiver topic and a
  token identifier topic decodes to the receiver's address, which is the last 20 bytes
  of the third topic, and to the fourth topic read as an unsigned 256-bit number. The
  payload has no part in it: whatever the payload is, the result is the same and the
  decoding succeeds.
\<close>

theorem decodeTransferLog_topics_only:
  assumes "Topics delog = [sigHash, fromTopic, toTopic, tokenIdTopic]"
    and "length toTopic = HashLength" and "length tokenIdTopic = HashLength"
  shows "decodeTransferLog (delog\<lparr>Data := payload\<rparr>) = Inr (Inr (drop 12 toTopic, Big tokenIdTopic))
         \<and> 0 \<le> Big tokenIdTopic \<and> Big tokenIdTopic < 2 ^ 256"
proof -
  have "4 \<le> length (Topics (delog\<lparr>Data := payload\<rparr>))"
    using assms(1) by simp
  then have "decodeTransferLog (delog\<lparr>Data := payload\<rparr>) =
      Inr (Inr (BytesToAddress toTopic, Big tokenIdTopic))"
    using assms(1) by (simp add: decodeTransferLog_four)
  moreover have "BytesToAddress toTopic = drop 12 toTopic"
    using assms(2) by (rule BytesToAddress_Hash)
  moreover have "0 \<le> Big tokenIdTopic \<and> Big tokenIdTopic < 256 ^ 32"
    using Big_range [of tokenIdTopic] assms(3) by (simp add: HashLength_def)
  moreover have "(256::int) ^ 32 = 2 ^ 256" by simp
  ultimately show ?thesis by simp
qed

theorem decodeTransferLog_topics_only_witness:
  "Topics (transferLog ownerX ownerY 7 101)
     = [transferEventHash, addressTopic ownerX, addressTopic ownerY, uint256Topic 7]
   \<and> length (addressTopic ownerY) = HashLength \<and> length (uint256Topic 7) = HashLength
   \<and> decodeTransferLog ((transferLog ownerX ownerY 7 101)\<lparr>Data := [0xff, 0x00, 0x01]\<rparr>)
       = Inr (Inr (ownerY, 7))"
  using decodeTransferLog_topics_only [of "transferLog ownerX ownerY 7 101"
      transferEventHash "addressTopic ownerX" "addressTopic ownerY" "uint256Topic 7" "[0xff, 0x00, 0x01]"]
  by (simp add: transferLog_def addressTopic_def uint256Topic_def ownerY_def HashLength_def
      Big_leading_zeros) (simp add: Big_def)

text \<open>
  C2, as the code has it. The decoder compares no topic with the signature hash and does
  not count the topics beyond reading the second, third and fourth: a log with at least
  four topics decodes to the address of its third topic and the number of its fourth,
  whatever its first topic is and however many topics follow, and no error is returned
  for it. Logs are matched with the signature hash by the topic filter of the fetch
  query, before they reach the decoder.
\<close>

theorem decodeTransferLog_unchecked_topics:
  "decodeTransferLog (delog\<lparr>Topics := t0 # t1 # t2 # t3 # extra\<rparr>)
     = Inr (Inr (BytesToAddress t2, Big t3))"
  by (simp add: decodeTransferLog_four)

text \<open>
  The claim as stated fails on a log with four topics whose first topic is not the
  signature hash: a fact is returned.
\<close>

theorem decodeTransferLog_rejection_counterexample:
  "Topics unsignedLog ! 0 \<noteq> transferEventHash
   \<and> length (Topics unsignedLog) = 4
   \<and> decodeTransferLog unsignedLog = Inr (Inr (ownerY, 7))"
  by (simp add: unsignedLog_def transferLog_def decodeTransferLog_four
      zero_hash_not_transferEventHash BytesToAddress_addressTopic ownerY_def AddressLength_def
      Big_uint256Topic)

section \<open>Conversion of the token identifier\<close>

lemma sint_Int64:
  assumes "IsInt64 b" shows "sint (Int64 b) = b"
proof -
  have "signed_take_bit 63 b = b"
    using assms by (simp add: IsInt64_def signed_take_bit_int_eq_self)
  then show ?thesis by (simp add: Int64_def signed_of_int)
qed

lemma BigIntToInt_fits:
  assumes "0 \<le> b" and "b \<le> 2 ^ 63 - 1"
  shows "(BigIntToInt b :: error + go_int) = Inr (word_of_int b)"
proof -
  from assms have fits: "IsInt64 b" by (simp add: IsInt64_def)
  then have "sint (Int64 b) = b" by (rule sint_Int64)
  then have "(BigIntToInt b :: error + go_int) = Inr (scast (Int64 b))"
    using fits assms by (simp add: BigIntToInt_def Let_def)
  then show ?thesis by (simp add: Int64_def)
qed


lemma BigIntToInt_small: "n < 256 \<Longrightarrow> (BigIntToInt (int n) :: error + go_int) = Inr (of_nat n)"
  using BigIntToInt_fits [of "int n"] by simp



section \<open>Properties of the upsert\<close>


lemma map_nftId_UpdateOne:
  "map nftId (UpdateOne nft coll) =
     (if NftID nft \<in> set (map nftId coll) then map nftId coll else map nftId coll @ [NftID nft])"
  by (induction coll) auto

lemma uniqueIndex_UpdateOne: "uniqueIndex coll \<Longrightarrow> uniqueIndex (UpdateOne nft coll)"
  by (simp add: uniqueIndex_def map_nftId_UpdateOne)

lemma filter_absent: "k \<notin> set (map nftId coll) \<Longrightarrow> filter (\<lambda>d. nftId d = k) coll = []"
  by (induction coll) auto

lemma filter_UpdateOne:
  "uniqueIndex coll \<Longrightarrow>
     filter (\<lambda>d. nftId d = NftID nft) (UpdateOne nft coll) = [documentOf nft]"
proof (induction coll)
  case Nil
  then show ?case by (simp add: documentOf_def)
next
  case (Cons d ds)
  show ?case
  proof (cases "nftId d = NftID nft")
    case True
    with Cons.prems have "NftID nft \<notin> set (map nftId ds)"
      by (auto simp: uniqueIndex_def)
    then have "filter (\<lambda>d. nftId d = NftID nft) ds = []" by (rule filter_absent)
    with True show ?thesis by (simp add: documentOf_def)
  next
    case False
    moreover from Cons.prems have "uniqueIndex ds" by (simp add: uniqueIndex_def)
    ultimately show ?thesis using Cons.IH by simp
  qed
qed

text \<open>An upsert leaves the documents of every other token as they are.\<close>

lemma filter_other_UpdateOne:
  "k \<noteq> NftID nft \<Longrightarrow>
     filter (\<lambda>d. nftId d = k) (UpdateOne nft coll) = filter (\<lambda>d. nftId d = k) coll"
  by (induction coll) auto

lemma uniqueIndex_fold:
  "uniqueIndex coll \<Longrightarrow>
     uniqueIndex (fold (\<lambda>(down, nft) c. snd (CreateUpdateNFT down nft c)) ops coll)"
proof (induction ops arbitrary: coll)
  case Nil
  then show ?case by simp
next
  case (Cons op ops)
  obtain down nft where op: "op = (down, nft)" by (cases op)
  have "uniqueIndex (snd (CreateUpdateNFT down nft coll))"
    using Cons.prems by (simp add: CreateUpdateNFT_def uniqueIndex_UpdateOne)
  then show ?case using Cons.IH op by simp
qed



text \<open>
  C7. Two values with the same token identifier, upserted one after the other into a
  collection that satisfies its unique index, leave exactly one document for that
  identifier, and its owner, contract, transaction hash and time stamp are those of the
  value upserted last.
\<close>

theorem CreateUpdateNFT_last_write_wins:
  assumes "uniqueIndex coll" and "NftID f1 = NftID f2"
  shows "filter (\<lambda>d. nftId d = NftID f2)
           (snd (CreateUpdateNFT False f2 (snd (CreateUpdateNFT False f1 coll))))
         = [\<lparr>nftId = NftID f2, ownerAddress = OwnerAddress f2,
             contractAddress = ContractAddress f2, txHash = NftTxHash f2,
             timeStamp = TimeStamp f2\<rparr>]"
proof -
  have "uniqueIndex (UpdateOne f1 coll)"
    using assms(1) by (rule uniqueIndex_UpdateOne)
  then have "filter (\<lambda>d. nftId d = NftID f2) (UpdateOne f2 (UpdateOne f1 coll)) = [documentOf f2]"
    by (rule filter_UpdateOne)
  then show ?thesis by (simp add: CreateUpdateNFT_def documentOf_def)
qed

theorem CreateUpdateNFT_last_write_wins_witness:
  "uniqueIndex [\<lparr>nftId = 9, ownerAddress = ownerZ, contractAddress = contractA,
                 txHash = uint256Topic 90, timeStamp = 0\<rparr>]
   \<and> NftID \<lparr>NftID = 7, OwnerAddress = ownerX, ContractAddress = contractA,
             NftTxHash = uint256Topic 101, TimeStamp = 1\<rparr>
     = NftID \<lparr>NftID = 7, OwnerAddress = ownerY, ContractAddress = contractA,
               NftTxHash = uint256Topic 104, TimeStamp = 2\<rparr>
   \<and> ownerX \<noteq> ownerY
   \<and> filter (\<lambda>d. nftId d = 7)
        (snd (CreateUpdateNFT False
           \<lparr>NftID = 7, OwnerAddress = ownerY, ContractAddress = contractA,
            NftTxHash = uint256Topic 104, TimeStamp = 2\<rparr>
           (snd (CreateUpdateNFT False
              \<lparr>NftID = 7, OwnerAddress = ownerX, ContractAddress = contractA,
               NftTxHash = uint256Topic 101, TimeStamp = 1\<rparr>
              [\<lparr>nftId = 9, ownerAddress = ownerZ, contractAddress = contractA,
                txHash = uint256Topic 90, timeStamp = 0\<rparr>]))))
     = [\<lparr>nftId = 7, ownerAddress = ownerY, contractAddress = contractA,
         txHash = uint256Topic 104, timeStamp = 2\<rparr>]"
  using CreateUpdateNFT_last_write_wins [of
      "[\<lparr>nftId = 9, ownerAddress = ownerZ, contractAddress = contractA,
         txHash = uint256Topic 90, timeStamp = 0\<rparr>]"
      "\<lparr>NftID = 7, OwnerAddress = ownerX, ContractAddress = contractA,
        NftTxHash = uint256Topic 101, TimeStamp = 1\<rparr>"
      "\<lparr>NftID = 7, OwnerAddress = ownerY, ContractAddress = contractA,
        NftTxHash = uint256Topic 104, TimeStamp = 2\<rparr>"]
  by (simp add: CreateUpdateNFT_def uniqueIndex_def ownerX_def ownerY_def)

text \<open>
  C8. Whatever upserts are made from the empty collection, failed calls among them, no
  two documents of the result have the same \<^verbatim>\<open>nftId\<close>. An upsert never changes the
  \<^verbatim>\<open>nftId\<close> of a document: the identifiers of the collection stay as they are, in
  their order, and a new one is added at the end only when the call succeeds and no
  document has it yet.
\<close>

theorem upserts_keep_one_document_per_nftId:
  "uniqueIndex (fold (\<lambda>(down, nft) c. snd (CreateUpdateNFT down nft c)) ops [])
   \<and> map nftId (snd (CreateUpdateNFT down nft coll))
       = (if down \<or> NftID nft \<in> set (map nftId coll) then map nftId coll
          else map nftId coll @ [NftID nft])"
proof -
  have "uniqueIndex []" by (simp add: uniqueIndex_def)
  then have "uniqueIndex (fold (\<lambda>(down, nft) c. snd (CreateUpdateNFT down nft c)) ops [])"
    by (rule uniqueIndex_fold)
  then show ?thesis by (simp add: CreateUpdateNFT_def map_nftId_UpdateOne)
qed

section \<open>Processing one log\<close>

lemma processTransferLog_transferLog:
  assumes "length receiver = AddressLength" and "tokenId < 256"
  shows "processTransferLog now down (transferLog sender receiver tokenId block) coll =
           Inr (None, snd (CreateUpdateNFT down
             \<lparr>NftID = of_nat tokenId, OwnerAddress = receiver, ContractAddress = contractA,
              NftTxHash = uint256Topic block, TimeStamp = now\<rparr> coll))"
  using assms
  by (simp add: processTransferLog_def decodeTransferLog_transferLog BigIntToInt_small
      split: prod.split) (simp add: transferLog_def)

lemma processTransferLog_erc20:
  "processTransferLog now down erc20TransferLog coll = Inl (IndexOutOfRange 3 3)"
  by (simp add: processTransferLog_def decodeTransferLog_erc20)

lemma processTransferLog_returns:
  assumes "4 \<le> length (Topics delog)"
  shows "\<exists>err c. processTransferLog now down delog coll = Inr (err, c)"
  using assms
  by (auto simp: processTransferLog_def decodeTransferLog_four Let_def
      split: sum.split prod.split)

text \<open>
  Whether a log panics, and which error it returns, depends on the log alone: not on
  the clock, the store's state or the collection.
\<close>

lemma processTransferLog_verdict:
  "map_sum id fst (processTransferLog now down delog coll)
     = map_sum id fst (processTransferLog now1 down1 delog coll1)"
  by (simp add: processTransferLog_def CreateUpdateNFT_def split: sum.split prod.split)

lemma processLogs_reports_independent:
  "map entry logs = map entry logs1 \<Longrightarrow>
     fst (processLogs logs coll) = fst (processLogs logs1 coll1)
     \<and> fst (snd (processLogs logs coll)) = fst (snd (processLogs logs1 coll1))"
proof (induction logs arbitrary: logs1 coll coll1)
  case Nil
  then show ?case by simp
next
  case (Cons a rest)
  then obtain a1 rest1 where logs1: "logs1 = a1 # rest1" and e: "entry a = entry a1"
    and r: "map entry rest = map entry rest1"
    by (cases logs1) auto
  have v: "map_sum id fst (processTransferLog (clock a) (storeDown a) (entry a) coll)
      = map_sum id fst (processTransferLog (clock a1) (storeDown a1) (entry a1) coll1)"
    unfolding e by (rule processTransferLog_verdict)
  show ?case
  proof (cases "processTransferLog (clock a) (storeDown a) (entry a) coll")
    case (Inl p)
    with v have "processTransferLog (clock a1) (storeDown a1) (entry a1) coll1 = Inl p"
      by (cases "processTransferLog (clock a1) (storeDown a1) (entry a1) coll1") auto
    with Inl logs1 show ?thesis by simp
  next
    case (Inr res)
    obtain err c where res: "res = (err, c)" by (cases res)
    with v Inr obtain c1 where
      "processTransferLog (clock a1) (storeDown a1) (entry a1) coll1 = Inr (err, c1)"
      by (cases "processTransferLog (clock a1) (storeDown a1) (entry a1) coll1") auto
    with Inr res logs1 Cons.IH [OF r, of c c1] show ?thesis
      by (auto split: prod.split)
  qed
qed

text \<open>
  C10. When a log decodes and its token identifier converts, \<^verbatim>\<open>processTransferLog\<close>
  returns \<^verbatim>\<open>nil\<close> also when the store call fails: the store's error is returned by
  \<^verbatim>\<open>CreateUpdateNFT\<close>, nothing is stored, and the caller is told of no error. The only
  errors that \<^verbatim>\<open>processTransferLog\<close> returns are those of decoding and of the range
  conversion, so the errors that the loop sees for a batch are the same whether the
  store failed for its logs or not.
\<close>

theorem processTransferLog_nil_despite_StoreError:
  assumes "decodeTransferLog delog = Inr (Inr (to, tokenId))"
    and "(BigIntToInt tokenId :: error + go_int) = Inr tokenIDInt"
  shows "fst (CreateUpdateNFT True
            \<lparr>NftID = tokenIDInt, OwnerAddress = to, ContractAddress = Address delog,
             NftTxHash = TxHash delog, TimeStamp = now\<rparr> coll) = Some StoreError
         \<and> processTransferLog now True delog coll = Inr (None, coll)
         \<and> (case processTransferLog now1 down1 delog1 coll1 of
               Inl p \<Rightarrow> True
             | Inr (None, c) \<Rightarrow> True
             | Inr (Some e, c) \<Rightarrow> e = DecodeError \<or> e = RangeError)
         \<and> fst (snd (processLogs (map (\<lambda>a. a\<lparr>storeDown := True\<rparr>) logs) coll))
             = fst (snd (processLogs logs coll))"
proof -
  have "fst (CreateUpdateNFT True
            \<lparr>NftID = tokenIDInt, OwnerAddress = to, ContractAddress = Address delog,
             NftTxHash = TxHash delog, TimeStamp = now\<rparr> coll) = Some StoreError"
    by (simp add: CreateUpdateNFT_def)
  moreover have "processTransferLog now True delog coll = Inr (None, coll)"
    using assms by (simp add: processTransferLog_def CreateUpdateNFT_def)
  moreover have "case processTransferLog now1 down1 delog1 coll1 of
               Inl p \<Rightarrow> True
             | Inr (None, c) \<Rightarrow> True
             | Inr (Some e, c) \<Rightarrow> e = DecodeError \<or> e = RangeError"
    by (simp add: processTransferLog_def CreateUpdateNFT_def split: sum.split prod.split)
  moreover have "map entry (map (\<lambda>a. a\<lparr>storeDown := True\<rparr>) logs) = map entry logs"
    by simp
  then have "fst (snd (processLogs (map (\<lambda>a. a\<lparr>storeDown := True\<rparr>) logs) coll))
             = fst (snd (processLogs logs coll))"
    using processLogs_reports_independent by blast
  ultimately show ?thesis by simp
qed

theorem processTransferLog_nil_despite_StoreError_witness:
  "decodeTransferLog (transferLog ownerX ownerY 7 101) = Inr (Inr (ownerY, 7))
   \<and> (BigIntToInt 7 :: error + go_int) = Inr 7
   \<and> fst (CreateUpdateNFT True
            \<lparr>NftID = 7, OwnerAddress = ownerY, ContractAddress = contractA,
             NftTxHash = uint256Topic 101, TimeStamp = 1\<rparr> []) = Some StoreError
   \<and> processTransferLog 1 True (transferLog ownerX ownerY 7 101) [] = Inr (None, [])"
proof -
  have d: "decodeTransferLog (transferLog ownerX ownerY 7 101) = Inr (Inr (ownerY, 7))"
    using decodeTransferLog_transferLog [of ownerY 7 ownerX 101]
    by (simp add: ownerY_def AddressLength_def)
  have b: "(BigIntToInt 7 :: error + go_int) = Inr 7"
    using BigIntToInt_small [of 7] by simp
  show ?thesis
    using d b processTransferLog_nil_despite_StoreError [OF d b, of 1 "[]"]
    by (simp add: transferLog_def)
qed

section \<open>Processing a batch\<close>

text \<open>
  Where every log of a batch has at least four topics, no log panics and the loop
  attempts every log, whatever errors the logs return and whatever the store does.
\<close>

lemma processLogs_attempts_all:
  assumes "\<forall>a \<in> set logs. 4 \<le> length (Topics (entry a))"
  shows "fst (processLogs logs coll) = None
         \<and> length (fst (snd (processLogs logs coll))) = length logs"
  using assms
proof (induction logs arbitrary: coll)
  case Nil
  then show ?case by simp
next
  case (Cons a rest)
  then have "4 \<le> length (Topics (entry a))" by simp
  then obtain err c where
    "processTransferLog (clock a) (storeDown a) (entry a) coll = Inr (err, c)"
    using processTransferLog_returns by blast
  then show ?case using Cons.IH [of c] Cons.prems by (auto split: prod.split)
qed

text \<open>
  C9. A batch of three logs whose second log has three topics: the first log is stored,
  the second panics in the decoder on \<^verbatim>\<open>Topics[3]\<close>, and the loop ends there with the
  panic, so the third log is never processed. In a backfill the panic ends
  \<^verbatim>\<open>TrackTransferEvents\<close> before any tick.
\<close>

theorem processLogs_short_topics_abort:
  "processLogs [arrival (transferLog ownerX ownerY 7 101) 1, arrival erc20TransferLog 2,
                arrival (transferLog ownerX ownerZ 9 108) 3] []
     = (Some (IndexOutOfRange 3 3), [None],
        [\<lparr>nftId = 7, ownerAddress = ownerY, contractAddress = contractA,
          txHash = uint256Topic 101, timeStamp = 1\<rparr>])
   \<and> TrackTransferEvents [contractA] (Parsed 100)
        (nodeAt 110 [arrival (transferLog ownerX ownerY 7 101) 1, arrival erc20TransferLog 2,
                     arrival (transferLog ownerX ownerZ 9 108) 3])
        [TickerC (nodeAt 115 [])] []
     = (Panicked (IndexOutOfRange 3 3), [Some (transferQuery 100 110)],
        [\<lparr>nftId = 7, ownerAddress = ownerY, contractAddress = contractA,
          txHash = uint256Topic 101, timeStamp = 1\<rparr>])"
  by (simp add: TrackTransferEvents_def nodeAt_def transferQuery_def arrival_def
      processTransferLog_transferLog processTransferLog_erc20
      ownerY_def ownerZ_def AddressLength_def CreateUpdateNFT_def)

section \<open>The polling loop\<close>

text \<open>Every query of the loop starts at the block that the loop was entered with.\<close>

lemma pollLoop_FromBlock:
  "Some q \<in> set (fst (snd (pollLoop contractAddrs eventHash latestBlock signals coll)))
     \<Longrightarrow> FromBlock q = latestBlock"
proof (induction contractAddrs eventHash latestBlock signals coll rule: pollLoop.induct)
  case (1 contractAddrs eventHash latestBlock coll)
  then show ?case by simp
next
  case (2 contractAddrs eventHash latestBlock rest coll)
  then show ?case by simp
next
  case (3 contractAddrs eventHash latestBlock node rest coll)
  then show ?case
    by (auto simp: fetchNewLogs_def Let_def split: option.splits prod.splits)
qed

text \<open>Every query of the loop carries the one topic filter it was entered with.\<close>

lemma pollLoop_QueryTopics:
  "Some q \<in> set (fst (snd (pollLoop contractAddrs eventHash latestBlock signals coll)))
     \<Longrightarrow> QueryTopics q = [ [eventHash] ]"
proof (induction contractAddrs eventHash latestBlock signals coll rule: pollLoop.induct)
  case (1 contractAddrs eventHash latestBlock coll)
  then show ?case by simp
next
  case (2 contractAddrs eventHash latestBlock rest coll)
  then show ?case by simp
next
  case (3 contractAddrs eventHash latestBlock node rest coll)
  then show ?case
    by (auto simp: fetchNewLogs_def Let_def split: option.splits prod.splits)
qed

text \<open>
  C1. A backfill from block 100 with the head at 105, then two ticks with the head at
  110 and at 115. The queries are for the blocks 100 to 105, 105 to 110 and 105 to 115:
  each tick starts at the head of the backfill again, not one block after the head of
  the tick before. The log of block 108 is returned and processed at both ticks, and
  the stored time stamp is that of the second.
\<close>

theorem TrackTransferEvents_refetches_from_backfill_head:
  "TrackTransferEvents [contractA] (Parsed 100) (nodeAt 105 [])
      [TickerC (nodeAt 110 [arrival (transferLog ownerX ownerZ 9 108) 10]),
       TickerC (nodeAt 115 [arrival (transferLog ownerX ownerZ 9 108) 20])] []
     = (Blocked,
        [Some (transferQuery 100 105), Some (transferQuery 105 110), Some (transferQuery 105 115)],
        [\<lparr>nftId = 9, ownerAddress = ownerZ, contractAddress = contractA,
          txHash = uint256Topic 108, timeStamp = 20\<rparr>])"
  by (simp add: TrackTransferEvents_def fetchNewLogs_def nodeAt_def transferQuery_def arrival_def
      processTransferLog_transferLog ownerZ_def AddressLength_def CreateUpdateNFT_def)

text \<open>
  C3, as the code has it. Building the query changes nothing and never fails, and no
  range is treated as empty: whenever the head lookup of a tick succeeds, the fetch is
  issued with the query from the given block to that head, whatever the two blocks are;
  when the head lookup fails, no fetch is issued and nothing changes.
\<close>

theorem fetchNewLogs_always_queries:
  "(case header node of
      None \<Rightarrow> fetchNewLogs contractAddrs node eventHash fromBlock coll = (None, None, [], coll)
    | Some latestBlock \<Rightarrow>
        fst (fetchNewLogs contractAddrs node eventHash fromBlock coll)
          = Some \<lparr>FromBlock = fromBlock, ToBlock = latestBlock, Addresses = contractAddrs,
                  QueryTopics = [ [eventHash] ]\<rparr>)"
  by (simp add: fetchNewLogs_def Let_def split: option.split prod.split)

text \<open>
  The claim as stated fails at a tick where the head has not moved since the backfill,
  and at a tick where the node reports a head before it, so that the first block of the
  query is after the last: the fetch is issued at both.
\<close>

theorem fetchNewLogs_empty_range_counterexample:
  "fst (snd (TrackTransferEvents [contractA] (Parsed 100) (nodeAt 105 [])
        [TickerC (nodeAt 105 []), TickerC (nodeAt 104 [])] []))
     = [Some (transferQuery 100 105), Some (transferQuery 105 105), Some (transferQuery 105 104)]
   \<and> ToBlock (transferQuery 105 104) < FromBlock (transferQuery 105 104)"
  by (simp add: TrackTransferEvents_def fetchNewLogs_def nodeAt_def transferQuery_def)

end
